theory Spec2Isabelle
  imports Main "HOL-Library.Word"
begin

unbundle bit_operations_syntax

section \<open>Handles, appearances and configuration\<close>

text \<open>
  A \<^verbatim>\<open>Window\<close> wraps a window handle by value and an \<^verbatim>\<open>HMONITOR\<close> is a monitor
  handle; both are opaque numbers. \<^verbatim>\<open>Window::NullWindow\<close> is the null handle.
\<close>

type_synonym Window = nat
type_synonym HMONITOR = nat

definition NullWindow :: Window where
  "NullWindow = 0"

text \<open>
  \<^verbatim>\<open>swca::ACCENT\<close> is declared in swcadata.hpp. main.cpp names two of its enumerators;
  every other enumerator is carried by its numeric value.
\<close>

datatype ACCENT = ACCENT_NORMAL | ACCENT_ENABLE_FLUENT | ACCENT_OTHER nat

record TASKBAR_APPEARANCE =
  ACCENT :: ACCENT
  COLOR :: "32 word"

text \<open>
  The registry stores, per taskbar, a pointer to one of five objects of the configuration
  (\<^verbatim>\<open>&Config::REGULAR_APPEARANCE\<close> and so on). The pointers are the constructors below;
  the objects they point to are read through the \<open>APPEARANCE\<close> field of the configuration.
\<close>

datatype appearance_ptr =
  REGULAR_APPEARANCE | MAXIMISED_APPEARANCE | START_APPEARANCE
  | CORTANA_APPEARANCE | TIMELINE_APPEARANCE

datatype PEEK = Disabled | Enabled | Dynamic

record Config =
  APPEARANCE :: "appearance_ptr \<Rightarrow> TASKBAR_APPEARANCE"
  MAXIMISED_ENABLED :: bool
  MAXIMISED_REGULAR_ON_PEEK :: bool
  PEEK :: PEEK
  PEEK_ONLY_MAIN :: bool
  CORTANA_ENABLED :: bool
  START_ENABLED :: bool
  TIMELINE_ENABLED :: bool

text \<open>
  What main.cpp asks of the operating system and of its collaborators, as one snapshot:
  the attribute queries of the \<^verbatim>\<open>Window\<close> class, the blacklist, the window lists that
  \<^verbatim>\<open>EnumWindows\<close>, \<^verbatim>\<open>Window::Find\<close> and \<^verbatim>\<open>Window::FindEnum\<close> deliver, the foreground
  window, the build test \<^verbatim>\<open>win32::IsAtLeastBuild(MIN_FLUENT_BUILD)\<close>, the constant
  \<^verbatim>\<open>CORE_WINDOW\<close> of common.hpp, and whether the function pointer
  \<^verbatim>\<open>user32::SetWindowCompositionAttribute\<close> is non-null.
\<close>

record Desktop =
  visible :: "Window \<Rightarrow> bool"
  state :: "Window \<Rightarrow> nat"
  cloaked :: "Window \<Rightarrow> bool"
  IsBlacklisted :: "Window \<Rightarrow> bool"
  on_current_desktop :: "Window \<Rightarrow> bool"
  monitor :: "Window \<Rightarrow> HMONITOR"
  classname :: "Window \<Rightarrow> string"
  filename :: "Window \<Rightarrow> string"
  top_level_windows :: "Window list"
  ForegroundWindow :: Window
  Find_Shell_TrayWnd :: Window
  FindEnum_Shell_SecondaryTrayWnd :: "Window list"
  timeline_av :: bool
  CORE_WINDOW :: string
  SetWindowCompositionAttribute_loaded :: bool

text \<open>The value of \<^verbatim>\<open>SW_MAXIMIZE\<close> in the headers of the system.\<close>

definition SW_MAXIMIZE :: nat where
  "SW_MAXIMIZE = 3"

text \<open>
  Modelled from the spec: the case folding inside \<^verbatim>\<open>Util::IgnoreCaseStringEquals\<close>
  (util.hpp, missing from the sources). The letters A to Z are folded to lower case; every
  other character is left as it is.
\<close>

definition to_lower :: "char \<Rightarrow> char" where
  "to_lower c =
     (case map_of (zip ''ABCDEFGHIJKLMNOPQRSTUVWXYZ'' ''abcdefghijklmnopqrstuvwxyz'') c of
        Some l \<Rightarrow> l | None \<Rightarrow> c)"

text \<open>
  Modelled from the spec: \<^verbatim>\<open>Util::IgnoreCaseStringEquals\<close> (util.hpp) is missing from the
  sources. The specification calls the comparison case-insensitive: two strings are equal
  when they are equal after case folding.
\<close>

definition IgnoreCaseStringEquals :: "string \<Rightarrow> string \<Rightarrow> bool" where
  "IgnoreCaseStringEquals l r = (map to_lower l = map to_lower r)"

section \<open>The taskbar map\<close>

text \<open>
  \<^verbatim>\<open>run.taskbars\<close> is an \<^verbatim>\<open>unordered_map\<close> from monitor to (taskbar window, appearance
  pointer). It is an association list with at most one pair per key; the list order stands
  for the iteration order of the container.
\<close>

type_synonym taskbar_map = "(HMONITOR \<times> Window \<times> appearance_ptr) list"

definition tb_count :: "taskbar_map \<Rightarrow> HMONITOR \<Rightarrow> nat" where
  "tb_count tb k = length (filter (\<lambda>e. fst e = k) tb)"

text \<open>\<^verbatim>\<open>tb[k] = v\<close>: assigns to the entry of \<open>k\<close>, inserting it when the key is new.\<close>

fun tb_assign :: "HMONITOR \<Rightarrow> Window \<times> appearance_ptr \<Rightarrow> taskbar_map \<Rightarrow> taskbar_map" where
  "tb_assign k v [] = [(k, v)]"
| "tb_assign k v (e # es) = (if fst e = k then (k, v) # es else e # tb_assign k v es)"

text \<open>
  \<^verbatim>\<open>tb.at(k).second = p\<close>. Both places that call \<^verbatim>\<open>at\<close> do so after testing
  \<^verbatim>\<open>count(k) != 0\<close>, so the exception of \<^verbatim>\<open>at\<close> on a missing key is never raised; on a
  missing key the function below leaves the map as it is.
\<close>

definition tb_set_second :: "HMONITOR \<Rightarrow> appearance_ptr \<Rightarrow> taskbar_map \<Rightarrow> taskbar_map" where
  "tb_set_second k p tb = map (\<lambda>e. if fst e = k then (fst e, fst (snd e), p) else e) tb"

text \<open>\<^verbatim>\<open>for (auto &[_, pair] : tb) pair.second = p\<close>.\<close>

definition tb_set_all :: "appearance_ptr \<Rightarrow> taskbar_map \<Rightarrow> taskbar_map" where
  "tb_set_all p tb = map (\<lambda>e. (fst e, fst (snd e), p)) tb"

text \<open>
  The keys of the map with the window bound to each, leaving the appearance pointers out:
  what \<^verbatim>\<open>RefreshHandles\<close> alone decides.
\<close>

definition bindings :: "taskbar_map \<Rightarrow> (HMONITOR \<times> Window) list" where
  "bindings tb = map (\<lambda>e. (fst e, fst (snd e))) tb"

section \<open>Program state\<close>

text \<open>
  The fields of the global \<^verbatim>\<open>run\<close> that the main logic reads or writes, the global
  \<^verbatim>\<open>hwnd\<close>, and the function-local static \<^verbatim>\<open>counter\<close> of \<^verbatim>\<open>SetTaskbarBlur\<close>.
\<close>

record run =
  main_taskbar :: Window
  taskbars :: taskbar_map
  should_show_peek :: bool
  peek_active :: bool
  start_opened :: bool
  hwnd :: Window
  counter :: "8 word"

text \<open>
  \<^verbatim>\<open>swca::ACCENTPOLICY\<close>, and what \<^verbatim>\<open>SetWindowBlur\<close> does to a window: the message it
  sends or the composition call it makes. The compositor state is the function-local static
  map \<^verbatim>\<open>is_normal\<close> together with the log of these effects, oldest first.
\<close>

record ACCENTPOLICY =
  nAccentState :: ACCENT
  nFlags :: "32 word"
  nColor :: "32 word"
  nAnimationId :: "32 word"

datatype effect =
  send_WM_THEMECHANGED Window
  | SetWindowCompositionAttribute Window ACCENTPOLICY

record compositor =
  is_normal :: "Window \<rightharpoonup> bool"
  effects :: "effect list"

section \<open>SetWindowBlur\<close>

definition initial_nColor :: "32 word \<Rightarrow> 32 word" where
  "initial_nColor color =
     (color AND 0xFF00FF00) + drop_bit 16 (color AND 0x00FF0000)
       + push_bit 16 (color AND 0x000000FF)"

text \<open>The colour that replaces a fully transparent one in fluent mode (line 92).\<close>

definition fluent_nColor :: "32 word \<Rightarrow> 32 word" where
  "fluent_nColor nColor0 = push_bit 24 0x01 + (nColor0 AND 0x00FFFFFF)"

definition SetWindowBlur ::
  "Desktop \<Rightarrow> compositor \<Rightarrow> Window \<Rightarrow> ACCENT \<Rightarrow> 32 word \<Rightarrow> compositor" where
  "SetWindowBlur os c window appearance color =
     (if SetWindowCompositionAttribute_loaded os then
        let policy = \<lparr>nAccentState = appearance, nFlags = 2,
                      nColor = initial_nColor color, nAnimationId = 0\<rparr>
        in if nAccentState policy = ACCENT_NORMAL then
             (if is_normal c window = None \<or> is_normal c window = Some False then
                c\<lparr>effects := effects c @ [send_WM_THEMECHANGED window],
                  is_normal := (is_normal c)(window \<mapsto> True)\<rparr>
              else c)
           else
             let policy' =
                   (if nAccentState policy = ACCENT_ENABLE_FLUENT
                       \<and> drop_bit 24 (nColor policy) = 0
                    then policy\<lparr>nColor := fluent_nColor (nColor policy)\<rparr>
                    else policy)
             in c\<lparr>effects := effects c @ [SetWindowCompositionAttribute window policy'],
                  is_normal := (is_normal c)(window \<mapsto> False)\<rparr>
      else c)"

section \<open>RefreshHandles\<close>

fun insert_secondary :: "Desktop \<Rightarrow> Window list \<Rightarrow> taskbar_map \<Rightarrow> taskbar_map" where
  "insert_secondary os [] tb = tb"
| "insert_secondary os (secondtaskbar # rest) tb =
     insert_secondary os rest
       (tb_assign (monitor os secondtaskbar) (secondtaskbar, REGULAR_APPEARANCE) tb)"

definition RefreshHandles :: "Desktop \<Rightarrow> run \<Rightarrow> run" where
  "RefreshHandles os r =
     (let cleared = [];
          main = Find_Shell_TrayWnd os;
          with_main = tb_assign (monitor os main) (main, REGULAR_APPEARANCE) cleared
      in r\<lparr>main_taskbar := main,
           taskbars := insert_secondary os (FindEnum_Shell_SecondaryTrayWnd os) with_main\<rparr>)"

section \<open>The window scan\<close>

text \<open>
  The test that \<^verbatim>\<open>EnumWindowsProcess\<close> makes of the enumerated window, and that
  \<^verbatim>\<open>SetTaskbarBlur\<close> repeats, word for word, on its local \<^verbatim>\<open>window\<close>.
\<close>

definition maximised_on_taskbar_monitor :: "Desktop \<Rightarrow> taskbar_map \<Rightarrow> Window \<Rightarrow> bool" where
  "maximised_on_taskbar_monitor os tb window \<longleftrightarrow>
     visible os window \<and> state os window = SW_MAXIMIZE \<and> \<not> cloaked os window
     \<and> \<not> IsBlacklisted os window \<and> on_current_desktop os window
     \<and> tb_count tb (monitor os window) \<noteq> 0"

definition EnumWindowsProcess :: "Config \<Rightarrow> Desktop \<Rightarrow> run \<Rightarrow> Window \<Rightarrow> run" where
  "EnumWindowsProcess cfg os r0 hWnd =
     (let window = hWnd;
          r = r0\<lparr>hwnd := hWnd\<rparr>
      in if maximised_on_taskbar_monitor os (taskbars r) window then
           let taskbar_first = map_option fst (map_of (taskbars r) (monitor os window));
               r1 = (if MAXIMISED_ENABLED cfg
                     then r\<lparr>taskbars :=
                            tb_set_second (monitor os window) MAXIMISED_APPEARANCE (taskbars r)\<rparr>
                     else r)
           in if PEEK cfg = Dynamic then
                (if PEEK_ONLY_MAIN cfg then
                   (if taskbar_first = Some (main_taskbar r1)
                    then r1\<lparr>should_show_peek := True\<rparr> else r1)
                 else r1\<lparr>should_show_peek := True\<rparr>)
              else r1
         else r)"

text \<open>The callback always returns true, so \<^verbatim>\<open>EnumWindows\<close> hands it every window.\<close>

fun EnumWindows :: "Config \<Rightarrow> Desktop \<Rightarrow> Window list \<Rightarrow> run \<Rightarrow> run" where
  "EnumWindows cfg os [] r = r"
| "EnumWindows cfg os (w # ws) r = EnumWindows cfg os ws (EnumWindowsProcess cfg os r w)"

section \<open>SetTaskbarBlur\<close>

text \<open>
  The body of \<^verbatim>\<open>if (counter >= 10)\<close>, cut at the places the comments of the source mark.
  \<open>window\<close> is the local \<^verbatim>\<open>const Window window(hwnd)\<close>, built from the global when
  \<^verbatim>\<open>SetTaskbarBlur\<close> is entered, before the scan of this pass overwrites the global.
\<close>

definition reset_taskbars :: "Config \<Rightarrow> run \<Rightarrow> run" where
  "reset_taskbars cfg r =
     r\<lparr>should_show_peek := (PEEK cfg = Enabled),
       taskbars := tb_set_all REGULAR_APPEARANCE (taskbars r)\<rparr>"

definition scan_windows :: "Config \<Rightarrow> Desktop \<Rightarrow> run \<Rightarrow> run" where
  "scan_windows cfg os r =
     (if MAXIMISED_ENABLED cfg \<or> PEEK cfg = Dynamic
      then EnumWindows cfg os (top_level_windows os) r else r)"

definition is_search :: "string \<Rightarrow> bool" where
  "is_search title \<longleftrightarrow>
     IgnoreCaseStringEquals title ''SearchUI.exe''
     \<or> IgnoreCaseStringEquals title ''SearchApp.exe''"

definition foreground_rules :: "Config \<Rightarrow> Desktop \<Rightarrow> Window \<Rightarrow> run \<Rightarrow> run" where
  "foreground_rules cfg os window r =
     (let fg_window = ForegroundWindow os in
      if fg_window \<noteq> NullWindow \<and> tb_count (taskbars r) (monitor os fg_window) \<noteq> 0 then
        (if maximised_on_taskbar_monitor os (taskbars r) window then
           let tb1 =
                 (if CORTANA_ENABLED cfg \<and> \<not> start_opened r \<and> \<not> cloaked os fg_window then
                    (if is_search (filename os fg_window)
                     then tb_set_second (monitor os fg_window) MAXIMISED_APPEARANCE (taskbars r)
                     else taskbars r)
                  else
                    (if is_search (filename os fg_window)
                     then tb_set_second (monitor os fg_window) CORTANA_APPEARANCE (taskbars r)
                     else taskbars r));
               tb2 =
                 (if START_ENABLED cfg \<and> start_opened r
                  then tb_set_second (monitor os fg_window) MAXIMISED_APPEARANCE tb1
                  else tb_set_second (monitor os fg_window) START_APPEARANCE tb1)
           in r\<lparr>taskbars := tb2\<rparr>
         else r)
      else r)"

definition peek_rule :: "Config \<Rightarrow> run \<Rightarrow> run" where
  "peek_rule cfg r =
     (if MAXIMISED_ENABLED cfg \<and> MAXIMISED_REGULAR_ON_PEEK cfg \<and> peek_active r
      then r\<lparr>taskbars := tb_set_all REGULAR_APPEARANCE (taskbars r)\<rparr> else r)"

definition is_timeline :: "Desktop \<Rightarrow> Window \<Rightarrow> bool" where
  "is_timeline os fg_window \<longleftrightarrow>
     (if timeline_av os
      then classname os fg_window = CORE_WINDOW os
           \<and> IgnoreCaseStringEquals (filename os fg_window) ''Explorer.exe''
      else classname os fg_window = ''MultitaskingViewFrame'')"

definition timeline_rule :: "Config \<Rightarrow> Desktop \<Rightarrow> run \<Rightarrow> run" where
  "timeline_rule cfg os r =
     (let fg_window = ForegroundWindow os in
      if fg_window \<noteq> NullWindow then
        (if TIMELINE_ENABLED cfg \<and> is_timeline os fg_window
         then r\<lparr>taskbars := tb_set_all TIMELINE_APPEARANCE (taskbars r)\<rparr> else r)
      else r)"

definition recompute :: "Config \<Rightarrow> Desktop \<Rightarrow> run \<Rightarrow> run" where
  "recompute cfg os r =
     (let window = hwnd r
      in timeline_rule cfg os
           (peek_rule cfg
             (foreground_rules cfg os window
               (scan_windows cfg os (reset_taskbars cfg r)))))"

fun apply_appearances :: "Config \<Rightarrow> Desktop \<Rightarrow> taskbar_map \<Rightarrow> compositor \<Rightarrow> compositor" where
  "apply_appearances cfg os [] c = c"
| "apply_appearances cfg os (e # es) c =
     (let appearance = APPEARANCE cfg (snd (snd e))
      in apply_appearances cfg os es
           (SetWindowBlur os c (fst (snd e)) (ACCENT appearance) (COLOR appearance)))"

definition SetTaskbarBlur :: "Config \<Rightarrow> Desktop \<Rightarrow> run \<times> compositor \<Rightarrow> run \<times> compositor" where
  "SetTaskbarBlur cfg os rc =
     (let r = fst rc;
          r' = (if 10 \<le> counter r then (recompute cfg os r)\<lparr>counter := 0\<rparr>
                else r\<lparr>counter := counter r + 1\<rparr>)
      in (r', apply_appearances cfg os (taskbars r') (snd rc)))"

section \<open>A desktop with two monitors\<close>

text \<open>
  Concrete inputs for the evaluations below. Monitor 1 carries the primary taskbar (window
  100), monitor 2 a secondary taskbar (window 200) and the maximised foreground window 7 of
  SearchUI.exe. Window 0 is the null handle: the system reports it as not visible.
\<close>

definition all_enabled :: Config where
  "all_enabled =
     \<lparr>APPEARANCE = (\<lambda>p. case p of
          REGULAR_APPEARANCE \<Rightarrow> \<lparr>ACCENT = ACCENT_NORMAL, COLOR = 0\<rparr>
        | MAXIMISED_APPEARANCE \<Rightarrow> \<lparr>ACCENT = ACCENT_OTHER 3, COLOR = 0xAA000000\<rparr>
        | START_APPEARANCE \<Rightarrow> \<lparr>ACCENT = ACCENT_ENABLE_FLUENT, COLOR = 0x00102030\<rparr>
        | CORTANA_APPEARANCE \<Rightarrow> \<lparr>ACCENT = ACCENT_OTHER 2, COLOR = 0x7F000000\<rparr>
        | TIMELINE_APPEARANCE \<Rightarrow> \<lparr>ACCENT = ACCENT_OTHER 1, COLOR = 0xFF202020\<rparr>),
      MAXIMISED_ENABLED = True, MAXIMISED_REGULAR_ON_PEEK = True, PEEK = Dynamic,
      PEEK_ONLY_MAIN = False, CORTANA_ENABLED = True, START_ENABLED = True,
      TIMELINE_ENABLED = True\<rparr>"

definition two_monitors :: Desktop where
  "two_monitors =
     \<lparr>visible = (\<lambda>w. w \<noteq> 0),
      state = (\<lambda>w. if w = 7 then 3 else 1),
      cloaked = (\<lambda>w. False),
      IsBlacklisted = (\<lambda>w. False),
      on_current_desktop = (\<lambda>w. True),
      monitor = (\<lambda>w. if w = 200 \<or> w = 7 then 2 else 1),
      classname = (\<lambda>w. if w = 100 then ''Shell_TrayWnd''
                        else if w = 200 then ''Shell_SecondaryTrayWnd''
                        else ''Windows.UI.Core.CoreWindow''),
      filename = (\<lambda>w. if w = 7 then ''SearchUI.exe'' else ''explorer.exe''),
      top_level_windows = [100, 200, 7],
      ForegroundWindow = 7,
      Find_Shell_TrayWnd = 100,
      FindEnum_Shell_SecondaryTrayWnd = [200],
      timeline_av = True,
      CORE_WINDOW = ''Windows.UI.Core.CoreWindow'',
      SetWindowCompositionAttribute_loaded = True\<rparr>"

text \<open>
  The same desktop with a second maximised window, 8, on monitor 2, enumerated before
  window 7.
\<close>

definition crowded :: Desktop where
  "crowded =
     two_monitors\<lparr>state := (\<lambda>w. if w = 7 \<or> w = 8 then 3 else 1),
                   monitor := (\<lambda>w. if w = 200 \<or> w = 7 \<or> w = 8 then 2 else 1),
                   top_level_windows := [100, 200, 8, 7]\<rparr>"

text \<open>The same desktop with task view in front: window 7 now belongs to explorer.exe.\<close>

definition task_view :: Desktop where
  "task_view = two_monitors\<lparr>filename := (\<lambda>w. ''explorer.exe'')\<rparr>"

text \<open>The same desktop with an ordinary program in front: window 7 belongs to notepad.exe.\<close>

definition notepad_front :: Desktop where
  "notepad_front = two_monitors\<lparr>filename := (\<lambda>w. ''notepad.exe'')\<rparr>"

text \<open>The same desktop while no taskbar window exists: both lookups come back empty.\<close>

definition explorer_gone :: Desktop where
  "explorer_gone =
     two_monitors\<lparr>top_level_windows := [7], Find_Shell_TrayWnd := NullWindow,
                    FindEnum_Shell_SecondaryTrayWnd := []\<rparr>"

text \<open>A desktop on which the secondary taskbar reports the monitor of the primary one.\<close>

definition shared_monitor :: Desktop where
  "shared_monitor = two_monitors\<lparr>monitor := (\<lambda>w. 1)\<rparr>"

definition started :: run where
  "started =
     \<lparr>main_taskbar = 100,
      taskbars = [(1, 100, REGULAR_APPEARANCE), (2, 200, REGULAR_APPEARANCE)],
      should_show_peek = False, peek_active = False, start_opened = False,
      hwnd = 7, counter = 10\<rparr>"

definition fresh :: compositor where
  "fresh = \<lparr>is_normal = Map.empty, effects = []\<rparr>"

section \<open>Colour arithmetic\<close>

text \<open>
  The three summands of \<open>initial_nColor\<close> have no bit in common, and neither have the two of
  \<open>fluent_nColor\<close>, so each sum is a bitwise or and can be read bit by bit.
\<close>

text \<open>The masks of the source as bit ranges.\<close>

lemma mask_ff: "(0xFF :: 32 word) = mask 8"
  by (simp add: mask_eq_exp_minus_1)

lemma mask_ff0000: "(0xFF0000 :: 32 word) = push_bit 16 (mask 8)"
  by (simp add: mask_eq_exp_minus_1)

lemma mask_ff00ff00: "(0xFF00FF00 :: 32 word) = push_bit 8 (mask 8) OR push_bit 24 (mask 8)"
  by (simp add: mask_eq_exp_minus_1)

lemma mask_ffffff: "(0xFFFFFF :: 32 word) = mask 24"
  by (simp add: mask_eq_exp_minus_1)

lemma bit_0x1000000_int: "bit (0x1000000 :: int) n \<longleftrightarrow> n = 24"
proof -
  have "(0x1000000 :: int) = push_bit 24 1" by simp
  then have "bit (0x1000000 :: int) n \<longleftrightarrow> bit (push_bit 24 1 :: int) n" by (simp only:)
  also have "\<dots> \<longleftrightarrow> n = 24" by (auto simp only: bit_simps) auto
  finally show ?thesis .
qed

lemma initial_nColor_or:
  "initial_nColor c =
     (c AND 0xFF00FF00) OR drop_bit 16 (c AND 0x00FF0000) OR push_bit 16 (c AND 0x000000FF)"
proof -
  have a: "(c AND 0xFF00FF00) + drop_bit 16 (c AND 0x00FF0000)
           = (c AND 0xFF00FF00) OR drop_bit 16 (c AND 0x00FF0000)"
    by (rule disjunctive_add) (auto simp add: mask_ff mask_ff0000 mask_ff00ff00 bit_simps)
  have b: "((c AND 0xFF00FF00) OR drop_bit 16 (c AND 0x00FF0000))
             + push_bit 16 (c AND 0x000000FF)
           = ((c AND 0xFF00FF00) OR drop_bit 16 (c AND 0x00FF0000))
             OR push_bit 16 (c AND 0x000000FF)"
    by (rule disjunctive_add) (auto simp add: mask_ff mask_ff0000 mask_ff00ff00 bit_simps)
  show ?thesis unfolding initial_nColor_def a b by (simp add: ac_simps)
qed

lemma bit_initial_nColor:
  "bit (initial_nColor c) n \<longleftrightarrow>
     n < 32 \<and> (if n < 8 then bit c (n + 16)
               else if n < 16 then bit c n
               else if n < 24 then bit c (n - 16) else bit c n)"
  by (auto simp add: initial_nColor_or mask_ff mask_ff0000 mask_ff00ff00 bit_simps add.commute
      dest: bit_imp_le_length)

lemma bit_fluent_nColor: "bit (fluent_nColor x) n \<longleftrightarrow> n = 24 \<or> n < 24 \<and> bit x n"
proof -
  have "fluent_nColor x = push_bit 24 0x01 OR (x AND 0x00FFFFFF)"
    unfolding fluent_nColor_def
    by (rule disjunctive_add) (auto simp add: mask_ffffff bit_0x1000000_int bit_simps)
  then show ?thesis
    by (auto simp add: mask_ffffff bit_0x1000000_int bit_simps)
qed

lemma alpha_initial: "drop_bit 24 (initial_nColor c) = drop_bit 24 c"
  by (rule bit_eqI) (auto simp add: bit_simps bit_initial_nColor dest: bit_imp_le_length)

lemma alpha_clamp: "drop_bit 24 (fluent_nColor x) = 1"
  by (rule bit_eqI) (auto simp add: bit_simps bit_fluent_nColor)

lemma low_clamp: "fluent_nColor x AND 0xFFFFFF = x AND 0xFFFFFF"
  by (rule bit_eqI) (auto simp add: bit_simps bit_fluent_nColor mask_ffffff)

lemma red_initial: "initial_nColor c AND 0xFF = drop_bit 16 c AND 0xFF"
  by (rule bit_eqI) (auto simp add: bit_simps bit_initial_nColor mask_ff add.commute)

lemma green_initial: "drop_bit 8 (initial_nColor c) AND 0xFF = drop_bit 8 c AND 0xFF"
  by (rule bit_eqI) (auto simp add: bit_simps bit_initial_nColor mask_ff add.commute)

lemma blue_initial: "drop_bit 16 (initial_nColor c) AND 0xFF = c AND 0xFF"
  by (rule bit_eqI) (auto simp add: bit_simps bit_initial_nColor mask_ff add.commute)

lemma red_clamp: "fluent_nColor x AND 0xFF = x AND 0xFF"
  by (rule bit_eqI) (auto simp add: bit_simps bit_fluent_nColor mask_ff)

lemma green_clamp: "drop_bit 8 (fluent_nColor x) AND 0xFF = drop_bit 8 x AND 0xFF"
  by (rule bit_eqI) (auto simp add: bit_simps bit_fluent_nColor mask_ff)

lemma blue_clamp: "drop_bit 16 (fluent_nColor x) AND 0xFF = drop_bit 16 x AND 0xFF"
  by (rule bit_eqI) (auto simp add: bit_simps bit_fluent_nColor mask_ff)

lemma SetWindowBlur_normal:
  "SetWindowBlur os c w ACCENT_NORMAL color =
     (if SetWindowCompositionAttribute_loaded os \<and> is_normal c w \<noteq> Some True
      then c\<lparr>effects := effects c @ [send_WM_THEMECHANGED w],
             is_normal := (is_normal c)(w \<mapsto> True)\<rparr>
      else c)"
  unfolding SetWindowBlur_def Let_def
  by (cases "is_normal c w") auto

lemma SetWindowBlur_call:
  "SetWindowCompositionAttribute_loaded os \<Longrightarrow> a \<noteq> ACCENT_NORMAL \<Longrightarrow>
   effects (SetWindowBlur os c w a color) = effects c @ [SetWindowCompositionAttribute w
     \<lparr>nAccentState = a, nFlags = 2,
      nColor = (if a = ACCENT_ENABLE_FLUENT \<and> drop_bit 24 color = 0
                then fluent_nColor (initial_nColor color) else initial_nColor color),
      nAnimationId = 0\<rparr>]"
  unfolding SetWindowBlur_def Let_def
  by (simp add: alpha_initial)

section \<open>Facts about the taskbar map and the passes\<close>

lemma bindings_tb_set_second [simp]: "bindings (tb_set_second k p tb) = bindings tb"
  by (induction tb) (auto simp add: bindings_def tb_set_second_def)

lemma bindings_tb_set_all [simp]: "bindings (tb_set_all p tb) = bindings tb"
  by (induction tb) (auto simp add: bindings_def tb_set_all_def)

lemma tb_set_all_bindings: "tb_set_all p tb = map (\<lambda>b. (fst b, snd b, p)) (bindings tb)"
  by (simp add: tb_set_all_def bindings_def)

lemma tb_set_all_cong: "bindings tb = bindings tb' \<Longrightarrow> tb_set_all p tb = tb_set_all p tb'"
  by (simp add: tb_set_all_bindings)

lemma tb_count_bindings: "tb_count tb k = length (filter (\<lambda>b. fst b = k) (bindings tb))"
  by (induction tb) (auto simp add: tb_count_def bindings_def)

lemma tb_count_cong: "bindings tb = bindings tb' \<Longrightarrow> tb_count tb k = tb_count tb' k"
  by (simp add: tb_count_bindings)

lemma maximised_cong:
  "bindings tb = bindings tb' \<Longrightarrow>
   maximised_on_taskbar_monitor os tb w = maximised_on_taskbar_monitor os tb' w"
  by (simp add: maximised_on_taskbar_monitor_def tb_count_cong [of tb tb'])

lemma EnumWindowsProcess_taskbars:
  "taskbars (EnumWindowsProcess cfg os r w) =
     (if maximised_on_taskbar_monitor os (taskbars r) w \<and> MAXIMISED_ENABLED cfg
      then tb_set_second (monitor os w) MAXIMISED_APPEARANCE (taskbars r) else taskbars r)"
  by (simp add: EnumWindowsProcess_def Let_def)

lemma EnumWindowsProcess_bindings [simp]:
  "bindings (taskbars (EnumWindowsProcess cfg os r w)) = bindings (taskbars r)"
  by (simp add: EnumWindowsProcess_taskbars)

lemma EnumWindowsProcess_fields [simp]:
  "peek_active (EnumWindowsProcess cfg os r w) = peek_active r"
  "start_opened (EnumWindowsProcess cfg os r w) = start_opened r"
  "main_taskbar (EnumWindowsProcess cfg os r w) = main_taskbar r"
  "counter (EnumWindowsProcess cfg os r w) = counter r"
  by (simp_all add: EnumWindowsProcess_def Let_def)

lemma EnumWindows_bindings [simp]:
  "bindings (taskbars (EnumWindows cfg os ws r)) = bindings (taskbars r)"
  by (induction ws arbitrary: r) simp_all

lemma EnumWindows_fields [simp]:
  "peek_active (EnumWindows cfg os ws r) = peek_active r"
  "start_opened (EnumWindows cfg os ws r) = start_opened r"
  "main_taskbar (EnumWindows cfg os ws r) = main_taskbar r"
  "counter (EnumWindows cfg os ws r) = counter r"
  by (induction ws arbitrary: r) simp_all

lemma tb_set_second_twice:
  "tb_set_second k p (tb_set_second k p tb) = tb_set_second k p tb"
  by (induction tb) (auto simp add: tb_set_second_def)

lemma EnumWindows_taskbars:
  "MAXIMISED_ENABLED cfg \<Longrightarrow>
   taskbars (EnumWindows cfg os ws r) =
     map (\<lambda>e. if \<exists>x\<in>set ws. maximised_on_taskbar_monitor os (taskbars r) x
                                \<and> monitor os x = fst e
               then (fst e, fst (snd e), MAXIMISED_APPEARANCE) else e) (taskbars r)"
proof (induction ws arbitrary: r)
  case Nil
  then show ?case by simp
next
  case (Cons w ws)
  let ?r1 = "EnumWindowsProcess cfg os r w"
  have same: "maximised_on_taskbar_monitor os (taskbars ?r1) x
              = maximised_on_taskbar_monitor os (taskbars r) x" for x
    by (rule maximised_cong) simp
  have step: "taskbars (EnumWindows cfg os (w # ws) r) =
     map (\<lambda>e. if \<exists>x\<in>set ws. maximised_on_taskbar_monitor os (taskbars r) x
                                \<and> monitor os x = fst e
               then (fst e, fst (snd e), MAXIMISED_APPEARANCE) else e) (taskbars ?r1)"
    by (simp add: Cons.IH [OF Cons.prems] same)
  show ?case
  proof (cases "maximised_on_taskbar_monitor os (taskbars r) w")
    case True
    then have "taskbars ?r1 = tb_set_second (monitor os w) MAXIMISED_APPEARANCE (taskbars r)"
      using Cons.prems by (simp add: EnumWindowsProcess_taskbars)
    with True show ?thesis
      unfolding step by (auto simp add: tb_set_second_def)
  next
    case False
    then have "taskbars ?r1 = taskbars r"
      by (simp add: EnumWindowsProcess_taskbars)
    with False show ?thesis
      unfolding step by auto
  qed
qed

lemma reset_fields [simp]:
  "taskbars (reset_taskbars cfg r) = tb_set_all REGULAR_APPEARANCE (taskbars r)"
  "peek_active (reset_taskbars cfg r) = peek_active r"
  "start_opened (reset_taskbars cfg r) = start_opened r"
  "main_taskbar (reset_taskbars cfg r) = main_taskbar r"
  "counter (reset_taskbars cfg r) = counter r"
  "hwnd (reset_taskbars cfg r) = hwnd r"
  by (simp_all add: reset_taskbars_def)

lemma scan_fields [simp]:
  "bindings (taskbars (scan_windows cfg os r)) = bindings (taskbars r)"
  "peek_active (scan_windows cfg os r) = peek_active r"
  "start_opened (scan_windows cfg os r) = start_opened r"
  "main_taskbar (scan_windows cfg os r) = main_taskbar r"
  "counter (scan_windows cfg os r) = counter r"
  by (simp_all add: scan_windows_def)

lemma foreground_fields [simp]:
  "bindings (taskbars (foreground_rules cfg os w r)) = bindings (taskbars r)"
  "peek_active (foreground_rules cfg os w r) = peek_active r"
  "start_opened (foreground_rules cfg os w r) = start_opened r"
  "main_taskbar (foreground_rules cfg os w r) = main_taskbar r"
  "counter (foreground_rules cfg os w r) = counter r"
  by (simp_all add: foreground_rules_def Let_def)

lemma peek_fields [simp]:
  "bindings (taskbars (peek_rule cfg r)) = bindings (taskbars r)"
  "peek_active (peek_rule cfg r) = peek_active r"
  by (simp_all add: peek_rule_def)

lemma scan_reset_taskbars:
  "MAXIMISED_ENABLED cfg \<Longrightarrow>
   taskbars (scan_windows cfg os (reset_taskbars cfg r)) =
     map (\<lambda>e. (fst e, fst (snd e),
               if \<exists>x\<in>set (top_level_windows os).
                    maximised_on_taskbar_monitor os (taskbars r) x \<and> monitor os x = fst e
               then MAXIMISED_APPEARANCE else REGULAR_APPEARANCE)) (taskbars r)"
proof -
  assume on: "MAXIMISED_ENABLED cfg"
  have same: "maximised_on_taskbar_monitor os (tb_set_all REGULAR_APPEARANCE (taskbars r)) x
              = maximised_on_taskbar_monitor os (taskbars r) x" for x
    by (rule maximised_cong) simp
  show ?thesis
    using on by (simp add: scan_windows_def EnumWindows_taskbars same) (simp add: tb_set_all_def)
qed

lemma recompute_peek:
  assumes "MAXIMISED_ENABLED cfg" "MAXIMISED_REGULAR_ON_PEEK cfg" "peek_active r"
  shows "taskbars (recompute cfg os r) =
     tb_set_all (if TIMELINE_ENABLED cfg \<and> ForegroundWindow os \<noteq> NullWindow
                    \<and> is_timeline os (ForegroundWindow os)
                 then TIMELINE_APPEARANCE else REGULAR_APPEARANCE) (taskbars r)"
proof -
  let ?r3 = "foreground_rules cfg os (hwnd r) (scan_windows cfg os (reset_taskbars cfg r))"
  have b3: "bindings (taskbars ?r3) = bindings (taskbars r)" by simp
  have p3: "peek_active ?r3" using assms(3) by simp
  have t4: "taskbars (peek_rule cfg ?r3) = tb_set_all REGULAR_APPEARANCE (taskbars r)"
    using assms(1,2) p3 by (simp add: peek_rule_def tb_set_all_cong [OF b3])
  show ?thesis
    by (simp add: recompute_def timeline_rule_def Let_def t4)
       (simp add: tb_set_all_def)
qed

lemma recompute_timeline:
  assumes "TIMELINE_ENABLED cfg" "ForegroundWindow os \<noteq> NullWindow"
    "is_timeline os (ForegroundWindow os)"
  shows "taskbars (recompute cfg os r) = tb_set_all TIMELINE_APPEARANCE (taskbars r)"
proof -
  let ?r4 = "peek_rule cfg
     (foreground_rules cfg os (hwnd r) (scan_windows cfg os (reset_taskbars cfg r)))"
  have b4: "bindings (taskbars ?r4) = bindings (taskbars r)" by simp
  show ?thesis
    using assms by (simp add: recompute_def timeline_rule_def Let_def tb_set_all_cong [OF b4])
qed

lemma SetTaskbarBlur_run:
  "10 \<le> counter r \<Longrightarrow>
   fst (SetTaskbarBlur cfg os (r, c)) = (recompute cfg os r)\<lparr>counter := 0\<rparr>"
  by (simp add: SetTaskbarBlur_def Let_def)

lemma map_of_tb_assign: "map_of (tb_assign k v tb) = (map_of tb)(k \<mapsto> v)"
  by (induction tb) (auto simp add: fun_eq_iff)

lemma keys_tb_assign: "set (map fst (tb_assign k v tb)) = insert k (set (map fst tb))"
  by (induction tb) auto

lemma distinct_tb_assign: "distinct (map fst tb) \<Longrightarrow> distinct (map fst (tb_assign k v tb))"
  by (induction tb) (auto simp add: keys_tb_assign simp flip: set_map)

lemma tb_assign_new: "k \<notin> set (map fst tb) \<Longrightarrow> tb_assign k v tb = tb @ [(k, v)]"
  by (induction tb) auto

lemma tb_assign_not_Nil: "tb_assign k v tb \<noteq> []"
  by (cases tb) auto

lemma find_app:
  "find P (xs @ ys) = (case find P xs of None \<Rightarrow> find P ys | Some x \<Rightarrow> Some x)"
  by (induction xs) auto

lemma map_of_insert_secondary:
  "map_of (insert_secondary os ws tb) k =
     (case find (\<lambda>w. monitor os w = k) (rev ws) of
        Some w \<Rightarrow> Some (w, REGULAR_APPEARANCE) | None \<Rightarrow> map_of tb k)"
proof (induction ws arbitrary: tb)
  case Nil
  then show ?case by simp
next
  case (Cons w ws)
  show ?case
    by (simp add: Cons.IH map_of_tb_assign find_app split: option.splits)
qed

lemma distinct_insert_secondary:
  "distinct (map fst tb) \<Longrightarrow> distinct (map fst (insert_secondary os ws tb))"
  by (induction ws arbitrary: tb) (simp_all add: distinct_tb_assign)

lemma insert_secondary_not_Nil: "tb \<noteq> [] \<Longrightarrow> insert_secondary os ws tb \<noteq> []"
  by (induction ws arbitrary: tb) (simp_all add: tb_assign_not_Nil)

lemma keys_insert_secondary:
  "fst ` set (insert_secondary os ws tb) = fst ` set tb \<union> monitor os ` set ws"
proof (induction ws arbitrary: tb)
  case Nil
  then show ?case by simp
next
  case (Cons w ws)
  have "fst ` set (tb_assign (monitor os w) (w, REGULAR_APPEARANCE) tb)
        = insert (monitor os w) (fst ` set tb)"
    using keys_tb_assign [of "monitor os w" "(w, REGULAR_APPEARANCE)" tb] by simp
  then show ?case by (simp add: Cons.IH)
qed

lemma insert_secondary_fresh:
  "distinct (map (monitor os) ws) \<Longrightarrow> set (map fst tb) \<inter> monitor os ` set ws = {} \<Longrightarrow>
   insert_secondary os ws tb = tb @ map (\<lambda>w. (monitor os w, w, REGULAR_APPEARANCE)) ws"
proof (induction ws arbitrary: tb)
  case Nil
  then show ?case by simp
next
  case (Cons w ws)
  have new: "monitor os w \<notin> set (map fst tb)" using Cons.prems(2) by auto
  have "insert_secondary os (w # ws) tb =
        insert_secondary os ws (tb @ [(monitor os w, w, REGULAR_APPEARANCE)])"
    by (simp add: tb_assign_new [OF new])
  also have "\<dots> = (tb @ [(monitor os w, w, REGULAR_APPEARANCE)])
                    @ map (\<lambda>w. (monitor os w, w, REGULAR_APPEARANCE)) ws"
    using Cons.prems by (intro Cons.IH) auto
  finally show ?case by simp
qed

lemma tb_count_distinct: "distinct (map fst tb) \<Longrightarrow> k \<in> fst ` set tb \<Longrightarrow> tb_count tb k = 1"
proof (induction tb)
  case Nil
  then show ?case by simp
next
  case (Cons e es)
  have none: "k \<notin> set (map fst es) \<Longrightarrow> filter (\<lambda>e. fst e = k) es = []"
    by (induction es) auto
  show ?case
  proof (cases "fst e = k")
    case True
    with Cons.prems have "k \<notin> set (map fst es)" by auto
    with True show ?thesis by (simp add: tb_count_def none)
  next
    case False
    with Cons show ?thesis by (simp add: tb_count_def)
  qed
qed

lemmas ex_defs = all_enabled_def two_monitors_def crowded_def task_view_def explorer_gone_def
  shared_monitor_def notepad_front_def started_def fresh_def

lemmas run_defs = SetTaskbarBlur_def recompute_def reset_taskbars_def scan_windows_def
  EnumWindowsProcess_def foreground_rules_def peek_rule_def timeline_rule_def is_timeline_def
  is_search_def maximised_on_taskbar_monitor_def tb_count_def tb_set_second_def tb_set_all_def
  IgnoreCaseStringEquals_def to_lower_def SW_MAXIMIZE_def NullWindow_def Let_def
  SetWindowBlur_def RefreshHandles_def

lemma bindings_Nil: "bindings tb = [] \<longleftrightarrow> tb = []"
  by (simp add: bindings_def)

lemma timeline_bindings [simp]:
  "bindings (taskbars (timeline_rule cfg os r)) = bindings (taskbars r)"
  by (simp add: timeline_rule_def Let_def)

lemma recompute_bindings: "bindings (taskbars (recompute cfg os r)) = bindings (taskbars r)"
  by (simp add: recompute_def Let_def)

lemma SetTaskbarBlur_bindings:
  "bindings (taskbars (fst (SetTaskbarBlur cfg os (r, c)))) = bindings (taskbars r)"
  by (simp add: SetTaskbarBlur_def Let_def recompute_bindings)

lemma SetTaskbarBlur_compositor:
  "snd (SetTaskbarBlur cfg os (r, c)) =
     apply_appearances cfg os (taskbars (fst (SetTaskbarBlur cfg os (r, c)))) c"
  by (simp add: SetTaskbarBlur_def Let_def)

lemma RefreshHandles_taskbars:
  "taskbars (RefreshHandles os r) =
     insert_secondary os (FindEnum_Shell_SecondaryTrayWnd os)
       [(monitor os (Find_Shell_TrayWnd os), Find_Shell_TrayWnd os, REGULAR_APPEARANCE)]"
  by (simp add: RefreshHandles_def Let_def)

lemma RefreshHandles_distinct: "distinct (map fst (taskbars (RefreshHandles os r)))"
  by (simp add: RefreshHandles_taskbars distinct_insert_secondary)

lemma RefreshHandles_map_of:
  "map_of (taskbars (RefreshHandles os r)) k =
     map_option (\<lambda>w. (w, REGULAR_APPEARANCE))
       (find (\<lambda>w. monitor os w = k)
          (rev (Find_Shell_TrayWnd os # FindEnum_Shell_SecondaryTrayWnd os)))"
  by (simp add: RefreshHandles_taskbars map_of_insert_secondary find_app split: option.splits)

lemma bindings_single: "bindings tb = [(k, w)] \<Longrightarrow> \<exists>p. tb = [(k, w, p)]"
  by (cases tb) (auto simp add: bindings_def)

lemma SetWindowBlur_one_effect:
  assumes "SetWindowCompositionAttribute_loaded os"
    and "a = ACCENT_NORMAL \<longrightarrow> is_normal c w \<noteq> Some True"
  shows "length (effects (SetWindowBlur os c w a color)) = Suc (length (effects c))"
proof (cases "a = ACCENT_NORMAL")
  case True
  with assms show ?thesis by (simp add: SetWindowBlur_normal)
next
  case False
  with assms(1) show ?thesis by (simp add: SetWindowBlur_call)
qed

section \<open>The foreground rules (claim C1)\<close>

text \<open>
  C1 names what the foreground rules are meant to do; the code misses it in two places,
  shown here on whole passes of \<^verbatim>\<open>SetTaskbarBlur\<close> in which neither peek nor task view
  interferes.
  First: window 7 of SearchUI.exe is in front, maximised, visible, not cloaked, not
  blacklisted, on the current desktop and on monitor 2; search integration is on and the
  start menu closed. C1 asks for the Cortana appearance on monitor 2. Line 345 stores the
  maximised appearance, and lines 357 to 364 overwrite whatever was stored: the pass ends
  with the start appearance.
  Second: window 7 of notepad.exe is in front and is itself maximised, so C1 asks for the
  start appearance. The code does not test the foreground window but its local
  \<^verbatim>\<open>window\<close>, built on entry from the global \<^verbatim>\<open>hwnd\<close>, which is still null in the first
  pass of the program: the foreground rules assign nothing and monitor 2 keeps the
  maximised appearance of the scan.
\<close>

theorem foreground_rules_miss_cortana_and_foreground:
  "(ForegroundWindow crowded = 7
    \<and> tb_count (taskbars started) (monitor crowded 7) = 1
    \<and> maximised_on_taskbar_monitor crowded (taskbars started) 7
    \<and> is_search (filename crowded 7)
    \<and> CORTANA_ENABLED all_enabled \<and> \<not> start_opened started \<and> \<not> cloaked crowded 7
    \<and> \<not> peek_active started \<and> \<not> is_timeline crowded 7
    \<and> 10 \<le> counter started \<and> hwnd started = 7
    \<and> taskbars (fst (SetTaskbarBlur all_enabled crowded (started, fresh)))
        = [(1, 100, REGULAR_APPEARANCE), (2, 200, START_APPEARANCE)])
   \<and> (ForegroundWindow notepad_front = 7
    \<and> tb_count (taskbars started) (monitor notepad_front 7) = 1
    \<and> maximised_on_taskbar_monitor notepad_front (taskbars started) 7
    \<and> \<not> is_search (filename notepad_front 7)
    \<and> \<not> (START_ENABLED all_enabled \<and> start_opened started)
    \<and> \<not> peek_active started \<and> \<not> is_timeline notepad_front 7
    \<and> hwnd (started\<lparr>hwnd := NullWindow\<rparr>) = NullWindow
    \<and> taskbars (fst (SetTaskbarBlur all_enabled notepad_front
                        (started\<lparr>hwnd := NullWindow\<rparr>, fresh)))
        = [(1, 100, REGULAR_APPEARANCE), (2, 200, MAXIMISED_APPEARANCE)])"
  by (simp add: ex_defs run_defs)

section \<open>Rebuilding the taskbar map (claims C2 and C8)\<close>

text \<open>
  C2, as stated, fails on the code. When neither lookup finds a taskbar window,
  \<^verbatim>\<open>RefreshHandles\<close> still stores the result of the primary lookup, the null window, under
  the monitor reported for it. The map is not empty, and the next pass of
  \<^verbatim>\<open>SetTaskbarBlur\<close> sends the theme message to the null window.
\<close>

theorem explorer_gone_registry_not_empty:
  "Find_Shell_TrayWnd explorer_gone = NullWindow
   \<and> FindEnum_Shell_SecondaryTrayWnd explorer_gone = []
   \<and> taskbars (RefreshHandles explorer_gone started) = [(1, NullWindow, REGULAR_APPEARANCE)]
   \<and> effects (snd (SetTaskbarBlur all_enabled explorer_gone
                     (RefreshHandles explorer_gone started, fresh)))
       = [send_WM_THEMECHANGED NullWindow]"
  by (simp add: ex_defs run_defs)

text \<open>
  C2, amended. After \<^verbatim>\<open>RefreshHandles\<close> the map is never empty: it has exactly one entry for
  the monitor reported for the result of the primary lookup, whatever that result is, and
  when there is no secondary taskbar this entry, bound to the lookup result with the
  regular appearance, is the whole map. The next pass of \<^verbatim>\<open>SetTaskbarBlur\<close> then keeps this
  one entry and calls \<^verbatim>\<open>SetWindowBlur\<close> on its window with the appearance the pass has
  assigned; this sends one message or makes one composition call whenever the composition
  function is loaded and the memo table does not record normal for that window. A map that
  is empty, as before the first rebuild, stays empty under \<^verbatim>\<open>SetTaskbarBlur\<close>, which then
  leaves the compositor untouched.
\<close>

theorem RefreshHandles_never_empty:
  "taskbars (RefreshHandles os r) \<noteq> []
   \<and> tb_count (taskbars (RefreshHandles os r)) (monitor os (Find_Shell_TrayWnd os)) = 1
   \<and> (FindEnum_Shell_SecondaryTrayWnd os = [] \<longrightarrow>
        taskbars (RefreshHandles os r)
          = [(monitor os (Find_Shell_TrayWnd os), Find_Shell_TrayWnd os, REGULAR_APPEARANCE)]
        \<and> (\<exists>p. taskbars (fst (SetTaskbarBlur cfg os (RefreshHandles os r, c)))
                   = [(monitor os (Find_Shell_TrayWnd os), Find_Shell_TrayWnd os, p)]
                 \<and> snd (SetTaskbarBlur cfg os (RefreshHandles os r, c))
                   = SetWindowBlur os c (Find_Shell_TrayWnd os)
                       (ACCENT (APPEARANCE cfg p)) (COLOR (APPEARANCE cfg p)))
        \<and> (SetWindowCompositionAttribute_loaded os
             \<and> is_normal c (Find_Shell_TrayWnd os) \<noteq> Some True \<longrightarrow>
             length (effects (snd (SetTaskbarBlur cfg os (RefreshHandles os r, c))))
               = Suc (length (effects c))))
   \<and> (taskbars r = [] \<longrightarrow>
        taskbars (fst (SetTaskbarBlur cfg os (r, c))) = []
        \<and> snd (SetTaskbarBlur cfg os (r, c)) = c)"
proof (intro conjI impI)
  show "taskbars (RefreshHandles os r) \<noteq> []"
    by (simp add: RefreshHandles_taskbars insert_secondary_not_Nil)
  show "tb_count (taskbars (RefreshHandles os r)) (monitor os (Find_Shell_TrayWnd os)) = 1"
    by (rule tb_count_distinct [OF RefreshHandles_distinct])
       (simp add: RefreshHandles_taskbars keys_insert_secondary)
next
  let ?main = "Find_Shell_TrayWnd os"
  let ?rc = "SetTaskbarBlur cfg os (RefreshHandles os r, c)"
  assume alone: "FindEnum_Shell_SecondaryTrayWnd os = []"
  show rebuilt: "taskbars (RefreshHandles os r) = [(monitor os ?main, ?main, REGULAR_APPEARANCE)]"
    using alone by (simp add: RefreshHandles_taskbars)
  have "bindings (taskbars (fst ?rc)) = [(monitor os ?main, ?main)]"
    unfolding SetTaskbarBlur_bindings by (simp add: rebuilt bindings_def)
  then obtain p where p: "taskbars (fst ?rc) = [(monitor os ?main, ?main, p)]"
    using bindings_single by blast
  have applied: "snd ?rc
      = SetWindowBlur os c ?main (ACCENT (APPEARANCE cfg p)) (COLOR (APPEARANCE cfg p))"
    by (subst SetTaskbarBlur_compositor) (simp add: p Let_def)
  show "\<exists>p. taskbars (fst ?rc) = [(monitor os ?main, ?main, p)]
            \<and> snd ?rc = SetWindowBlur os c ?main
                           (ACCENT (APPEARANCE cfg p)) (COLOR (APPEARANCE cfg p))"
    using p applied by blast
  show "length (effects (snd ?rc)) = Suc (length (effects c))"
    if "SetWindowCompositionAttribute_loaded os \<and> is_normal c ?main \<noteq> Some True"
    unfolding applied using that by (intro SetWindowBlur_one_effect) simp_all
next
  assume empty: "taskbars r = []"
  have "bindings (taskbars (fst (SetTaskbarBlur cfg os (r, c)))) = []"
    unfolding SetTaskbarBlur_bindings by (simp add: empty bindings_def)
  then show none: "taskbars (fst (SetTaskbarBlur cfg os (r, c))) = []"
    unfolding bindings_Nil .
  show "snd (SetTaskbarBlur cfg os (r, c)) = c"
    by (subst SetTaskbarBlur_compositor) (simp add: none)
qed

theorem RefreshHandles_never_empty_witness:
  "taskbars (RefreshHandles explorer_gone (started\<lparr>taskbars := []\<rparr>)) \<noteq> []
   \<and> taskbars (started\<lparr>taskbars := []\<rparr>) = []
   \<and> FindEnum_Shell_SecondaryTrayWnd explorer_gone = []
   \<and> SetWindowCompositionAttribute_loaded explorer_gone
   \<and> is_normal fresh (Find_Shell_TrayWnd explorer_gone) \<noteq> Some True
   \<and> effects (snd (SetTaskbarBlur all_enabled explorer_gone
                     (RefreshHandles explorer_gone (started\<lparr>taskbars := []\<rparr>), fresh)))
       = [send_WM_THEMECHANGED NullWindow]
   \<and> snd (SetTaskbarBlur all_enabled explorer_gone (started\<lparr>taskbars := []\<rparr>, fresh)) = fresh"
  using RefreshHandles_never_empty
    [of explorer_gone "started\<lparr>taskbars := []\<rparr>" all_enabled fresh]
  by (simp add: ex_defs run_defs)

text \<open>
  C8, as stated, fails on the code. The map has one entry per monitor, not per taskbar
  window found: when the secondary taskbar 200 reports the monitor of the primary taskbar
  100, the entry of 100 is overwritten and the map holds 200 alone.
\<close>

theorem two_taskbars_on_one_monitor:
  "Find_Shell_TrayWnd shared_monitor = 100
   \<and> FindEnum_Shell_SecondaryTrayWnd shared_monitor = [200]
   \<and> monitor shared_monitor 100 = monitor shared_monitor 200
   \<and> taskbars (RefreshHandles shared_monitor started) = [(1, 200, REGULAR_APPEARANCE)]"
  by (simp add: ex_defs run_defs)

text \<open>
  C8, amended. Every rebuild is wholesale: the map after \<^verbatim>\<open>RefreshHandles\<close> does not depend
  on the map before it, so no earlier entry survives. Its keys are pairwise different, and
  the entry of a monitor is the last window, in lookup order (primary result first, then the
  secondary ones), that reports this monitor, with the regular appearance; a monitor that no
  looked-up window reports has no entry. When the looked-up windows report pairwise
  different monitors, the map holds exactly these windows, one entry each.
\<close>

theorem RefreshHandles_is_wholesale:
  "taskbars (RefreshHandles os r) = taskbars (RefreshHandles os r')
   \<and> distinct (map fst (taskbars (RefreshHandles os r)))
   \<and> map_of (taskbars (RefreshHandles os r)) k =
       map_option (\<lambda>w. (w, REGULAR_APPEARANCE))
         (find (\<lambda>w. monitor os w = k)
            (rev (Find_Shell_TrayWnd os # FindEnum_Shell_SecondaryTrayWnd os)))
   \<and> (distinct (map (monitor os) (Find_Shell_TrayWnd os # FindEnum_Shell_SecondaryTrayWnd os))
        \<longrightarrow> taskbars (RefreshHandles os r) =
             map (\<lambda>w. (monitor os w, w, REGULAR_APPEARANCE))
               (Find_Shell_TrayWnd os # FindEnum_Shell_SecondaryTrayWnd os))"
proof (intro conjI impI)
  show "taskbars (RefreshHandles os r) = taskbars (RefreshHandles os r')"
    by (simp add: RefreshHandles_taskbars)
  show "distinct (map fst (taskbars (RefreshHandles os r)))"
    by (rule RefreshHandles_distinct)
  show "map_of (taskbars (RefreshHandles os r)) k =
       map_option (\<lambda>w. (w, REGULAR_APPEARANCE))
         (find (\<lambda>w. monitor os w = k)
            (rev (Find_Shell_TrayWnd os # FindEnum_Shell_SecondaryTrayWnd os)))"
    by (rule RefreshHandles_map_of)
  assume d: "distinct (map (monitor os)
               (Find_Shell_TrayWnd os # FindEnum_Shell_SecondaryTrayWnd os))"
  show "taskbars (RefreshHandles os r) =
          map (\<lambda>w. (monitor os w, w, REGULAR_APPEARANCE))
            (Find_Shell_TrayWnd os # FindEnum_Shell_SecondaryTrayWnd os)"
    unfolding RefreshHandles_taskbars
    by (subst insert_secondary_fresh) (use d in auto)
qed

theorem RefreshHandles_is_wholesale_witness:
  "distinct (map (monitor two_monitors)
      (Find_Shell_TrayWnd two_monitors # FindEnum_Shell_SecondaryTrayWnd two_monitors))
   \<and> taskbars (RefreshHandles two_monitors
        (started\<lparr>taskbars := [(3, 300, MAXIMISED_APPEARANCE), (1, 100, START_APPEARANCE)]\<rparr>))
       = [(1, 100, REGULAR_APPEARANCE), (2, 200, REGULAR_APPEARANCE)]"
  using RefreshHandles_is_wholesale
    [of two_monitors
      "started\<lparr>taskbars := [(3, 300, MAXIMISED_APPEARANCE), (1, 100, START_APPEARANCE)]\<rparr>"
      started 1]
  by (simp add: ex_defs run_defs)

section \<open>The window scan (claim C3)\<close>

text \<open>
  C3. With the maximised-window feature enabled, the scan callback assigns the maximised
  appearance to the monitor of a window if and only if the window is visible, its state is
  maximised, it is not cloaked, not blacklisted, on the current desktop, and its monitor is
  a key of the map; otherwise it leaves the map as it is. A further window that passes the
  test on the same monitor changes nothing. After the reset and the scan of a pass, a
  monitor of the map has the maximised appearance exactly when some enumerated window
  passes the test on it, and the regular appearance otherwise: the outcome per monitor is
  a yes or no, whatever the number of such windows.
\<close>

theorem scan_assigns_maximised:
  assumes "MAXIMISED_ENABLED cfg"
  shows "taskbars (EnumWindowsProcess cfg os r w) =
           (if visible os w \<and> state os w = SW_MAXIMIZE \<and> \<not> cloaked os w
               \<and> \<not> IsBlacklisted os w \<and> on_current_desktop os w
               \<and> tb_count (taskbars r) (monitor os w) \<noteq> 0
            then tb_set_second (monitor os w) MAXIMISED_APPEARANCE (taskbars r)
            else taskbars r)
         \<and> (maximised_on_taskbar_monitor os (taskbars r) w
              \<and> maximised_on_taskbar_monitor os (taskbars r) w'
              \<and> monitor os w' = monitor os w \<longrightarrow>
              taskbars (EnumWindowsProcess cfg os (EnumWindowsProcess cfg os r w) w')
                = taskbars (EnumWindowsProcess cfg os r w))
         \<and> taskbars (scan_windows cfg os (reset_taskbars cfg r)) =
             map (\<lambda>e. (fst e, fst (snd e),
                       if \<exists>x\<in>set (top_level_windows os).
                            maximised_on_taskbar_monitor os (taskbars r) x
                            \<and> monitor os x = fst e
                       then MAXIMISED_APPEARANCE else REGULAR_APPEARANCE)) (taskbars r)"
proof (intro conjI impI)
  show "taskbars (EnumWindowsProcess cfg os r w) =
           (if visible os w \<and> state os w = SW_MAXIMIZE \<and> \<not> cloaked os w
               \<and> \<not> IsBlacklisted os w \<and> on_current_desktop os w
               \<and> tb_count (taskbars r) (monitor os w) \<noteq> 0
            then tb_set_second (monitor os w) MAXIMISED_APPEARANCE (taskbars r)
            else taskbars r)"
    unfolding EnumWindowsProcess_taskbars maximised_on_taskbar_monitor_def
    using assms by simp
next
  let ?r1 = "EnumWindowsProcess cfg os r w"
  assume both: "maximised_on_taskbar_monitor os (taskbars r) w
                \<and> maximised_on_taskbar_monitor os (taskbars r) w'
                \<and> monitor os w' = monitor os w"
  have first: "taskbars ?r1 = tb_set_second (monitor os w) MAXIMISED_APPEARANCE (taskbars r)"
    using both assms by (simp add: EnumWindowsProcess_taskbars)
  have "maximised_on_taskbar_monitor os (taskbars ?r1) w'
        = maximised_on_taskbar_monitor os (taskbars r) w'"
    by (rule maximised_cong) simp
  then have "taskbars (EnumWindowsProcess cfg os ?r1 w')
             = tb_set_second (monitor os w) MAXIMISED_APPEARANCE (taskbars ?r1)"
    using both assms by (simp add: EnumWindowsProcess_taskbars [of cfg os ?r1 w'])
  then show "taskbars (EnumWindowsProcess cfg os ?r1 w') = taskbars ?r1"
    by (simp add: first tb_set_second_twice)
next
  show "taskbars (scan_windows cfg os (reset_taskbars cfg r)) =
             map (\<lambda>e. (fst e, fst (snd e),
                       if \<exists>x\<in>set (top_level_windows os).
                            maximised_on_taskbar_monitor os (taskbars r) x
                            \<and> monitor os x = fst e
                       then MAXIMISED_APPEARANCE else REGULAR_APPEARANCE)) (taskbars r)"
    by (rule scan_reset_taskbars [OF assms])
qed

theorem scan_assigns_maximised_witness:
  "MAXIMISED_ENABLED all_enabled
   \<and> maximised_on_taskbar_monitor crowded (taskbars started) 8
   \<and> maximised_on_taskbar_monitor crowded (taskbars started) 7
   \<and> monitor crowded 7 = monitor crowded 8
   \<and> taskbars (EnumWindowsProcess all_enabled crowded started 8)
       = [(1, 100, REGULAR_APPEARANCE), (2, 200, MAXIMISED_APPEARANCE)]
   \<and> taskbars (EnumWindowsProcess all_enabled crowded
                  (EnumWindowsProcess all_enabled crowded started 8) 7)
       = [(1, 100, REGULAR_APPEARANCE), (2, 200, MAXIMISED_APPEARANCE)]
   \<and> taskbars (scan_windows all_enabled crowded (reset_taskbars all_enabled started))
       = [(1, 100, REGULAR_APPEARANCE), (2, 200, MAXIMISED_APPEARANCE)]"
  using scan_assigns_maximised [of all_enabled crowded started 8 7]
  by (simp add: ex_defs run_defs)

section \<open>Peek and task view (claims C4 and C5)\<close>

text \<open>
  C4, as stated, fails on the code. With the maximised-window feature and regular-on-peek
  enabled and peek active, a pass that finds task view in front leaves every monitor with
  the timeline appearance, not the regular one.
\<close>

theorem peek_override_under_task_view:
  "MAXIMISED_ENABLED all_enabled \<and> MAXIMISED_REGULAR_ON_PEEK all_enabled
   \<and> peek_active (started\<lparr>peek_active := True\<rparr>)
   \<and> 10 \<le> counter (started\<lparr>peek_active := True\<rparr>)
   \<and> taskbars (fst (SetTaskbarBlur all_enabled task_view
                       (started\<lparr>peek_active := True\<rparr>, fresh)))
       = [(1, 100, TIMELINE_APPEARANCE), (2, 200, TIMELINE_APPEARANCE)]"
  by (simp add: ex_defs run_defs)

text \<open>
  C4, amended. In a pass that recomputes (the counter has reached 10), if the
  maximised-window feature and regular-on-peek are enabled and peek is active, every
  monitor of the map ends with the regular appearance, never the maximised, start or
  Cortana one, whatever windows are maximised; unless the timeline rule, which comes after,
  applies, and then every monitor ends with the timeline appearance.
\<close>

theorem peek_forces_regular_below_timeline:
  assumes "10 \<le> counter r"
    and "MAXIMISED_ENABLED cfg" and "MAXIMISED_REGULAR_ON_PEEK cfg" and "peek_active r"
  shows "taskbars (fst (SetTaskbarBlur cfg os (r, c))) =
     tb_set_all
       (if TIMELINE_ENABLED cfg \<and> ForegroundWindow os \<noteq> NullWindow
           \<and> is_timeline os (ForegroundWindow os)
        then TIMELINE_APPEARANCE else REGULAR_APPEARANCE)
       (taskbars r)"
  using assms by (simp add: SetTaskbarBlur_run recompute_peek)

theorem peek_forces_regular_below_timeline_witness:
  "10 \<le> counter (started\<lparr>peek_active := True\<rparr>)
   \<and> MAXIMISED_ENABLED all_enabled \<and> MAXIMISED_REGULAR_ON_PEEK all_enabled
   \<and> peek_active (started\<lparr>peek_active := True\<rparr>)
   \<and> maximised_on_taskbar_monitor two_monitors (taskbars started) 7
   \<and> taskbars (fst (SetTaskbarBlur all_enabled two_monitors
                       (started\<lparr>peek_active := True\<rparr>, fresh)))
       = [(1, 100, REGULAR_APPEARANCE), (2, 200, REGULAR_APPEARANCE)]"
  using peek_forces_regular_below_timeline
    [of "started\<lparr>peek_active := True\<rparr>" all_enabled two_monitors fresh]
  by (simp add: ex_defs run_defs)

text \<open>
  C5. In a pass that recomputes, when the timeline feature is enabled and the foreground
  window exists and has the task view signature (where the build test succeeds: its class
  name is \<^verbatim>\<open>CORE_WINDOW\<close> and its file name is Explorer.exe up to case; otherwise: its class
  name is MultitaskingViewFrame), every entry of the map ends with the timeline appearance,
  whatever the earlier rules assigned.
\<close>

theorem timeline_overrides_all:
  assumes "10 \<le> counter r" and "TIMELINE_ENABLED cfg"
    and "ForegroundWindow os \<noteq> NullWindow"
    and "if timeline_av os
         then classname os (ForegroundWindow os) = CORE_WINDOW os
              \<and> IgnoreCaseStringEquals (filename os (ForegroundWindow os)) ''Explorer.exe''
         else classname os (ForegroundWindow os) = ''MultitaskingViewFrame''"
  shows "taskbars (fst (SetTaskbarBlur cfg os (r, c)))
         = map (\<lambda>e. (fst e, fst (snd e), TIMELINE_APPEARANCE)) (taskbars r)"
proof -
  have "is_timeline os (ForegroundWindow os)"
    using assms(4) by (simp add: is_timeline_def)
  then have "taskbars (recompute cfg os r) = tb_set_all TIMELINE_APPEARANCE (taskbars r)"
    using assms(2,3) by (rule recompute_timeline [rotated 2])
  then show ?thesis
    using assms(1) by (simp add: SetTaskbarBlur_run tb_set_all_def)
qed

theorem timeline_overrides_all_witness:
  "10 \<le> counter started \<and> TIMELINE_ENABLED all_enabled
   \<and> ForegroundWindow task_view \<noteq> NullWindow \<and> timeline_av task_view
   \<and> classname task_view (ForegroundWindow task_view) = CORE_WINDOW task_view
   \<and> IgnoreCaseStringEquals (filename task_view (ForegroundWindow task_view)) ''Explorer.exe''
   \<and> maximised_on_taskbar_monitor task_view (taskbars started) 7
   \<and> taskbars (fst (SetTaskbarBlur all_enabled task_view (started, fresh)))
       = [(1, 100, TIMELINE_APPEARANCE), (2, 200, TIMELINE_APPEARANCE)]"
  using timeline_overrides_all [of started all_enabled task_view fresh]
  by (simp add: ex_defs run_defs)

section \<open>The compositor (claims C6, C7 and C10)\<close>

text \<open>
  C6. Two calls of \<^verbatim>\<open>SetWindowBlur\<close> in a row with the normal mode on the same window: the
  second call changes nothing, neither the effects nor the memo table. Both calls together
  make no composition call and send the theme message at most once, namely when the
  composition function is loaded and the table does not record normal for the window.
\<close>

theorem normal_twice_is_memoised:
  "SetWindowBlur os (SetWindowBlur os c w ACCENT_NORMAL color1) w ACCENT_NORMAL color2
     = SetWindowBlur os c w ACCENT_NORMAL color1
   \<and> effects (SetWindowBlur os c w ACCENT_NORMAL color1)
     = effects c @ (if SetWindowCompositionAttribute_loaded os \<and> is_normal c w \<noteq> Some True
                    then [send_WM_THEMECHANGED w] else [])"
  by (simp add: SetWindowBlur_normal)

theorem normal_twice_is_memoised_witness:
  "effects (SetWindowBlur two_monitors (SetWindowBlur two_monitors fresh 100 ACCENT_NORMAL 0)
              100 ACCENT_NORMAL 0)
   = [send_WM_THEMECHANGED 100]"
  using normal_twice_is_memoised [of two_monitors fresh 100 0 0]
  by (simp add: ex_defs)

text \<open>
  C7. With the composition function loaded, \<^verbatim>\<open>SetWindowBlur\<close> in fluent mode makes one
  composition call, and the colour it passes never has alpha byte zero. For an input colour
  with alpha byte 0x00 the passed colour has alpha byte 0x01 and its other three bytes are
  the ones the call would get without the replacement: the red, green and blue channel of
  the input (red in bits 0 to 7 of the passed colour, blue in bits 16 to 23, as the
  composition call reads them).
\<close>

theorem fluent_alpha_is_clamped:
  assumes "SetWindowCompositionAttribute_loaded os"
  shows "let applied = (if drop_bit 24 color = 0 then fluent_nColor (initial_nColor color)
                        else initial_nColor color)
         in effects (SetWindowBlur os c w ACCENT_ENABLE_FLUENT color)
              = effects c @ [SetWindowCompositionAttribute w
                  \<lparr>nAccentState = ACCENT_ENABLE_FLUENT, nFlags = 2, nColor = applied,
                   nAnimationId = 0\<rparr>]
            \<and> drop_bit 24 applied \<noteq> 0
            \<and> (drop_bit 24 color = 0 \<longrightarrow>
                 drop_bit 24 applied = 0x01
                 \<and> applied AND 0xFFFFFF = initial_nColor color AND 0xFFFFFF
                 \<and> applied AND 0xFF = drop_bit 16 color AND 0xFF
                 \<and> drop_bit 8 applied AND 0xFF = drop_bit 8 color AND 0xFF
                 \<and> drop_bit 16 applied AND 0xFF = color AND 0xFF)"
proof (cases "drop_bit 24 color = 0")
  case True
  then show ?thesis
    using assms
    by (simp add: Let_def SetWindowBlur_call alpha_clamp low_clamp red_clamp green_clamp
        blue_clamp red_initial green_initial blue_initial)
next
  case False
  then show ?thesis
    using assms by (simp add: Let_def SetWindowBlur_call alpha_initial)
qed

theorem fluent_alpha_is_clamped_witness:
  "SetWindowCompositionAttribute_loaded two_monitors
   \<and> drop_bit 24 (0x00A0B0C0 :: 32 word) = 0
   \<and> effects (SetWindowBlur two_monitors fresh 100 ACCENT_ENABLE_FLUENT 0x00A0B0C0)
       = [SetWindowCompositionAttribute 100
            \<lparr>nAccentState = ACCENT_ENABLE_FLUENT, nFlags = 2, nColor = 0x01C0B0A0,
             nAnimationId = 0\<rparr>]"
  using fluent_alpha_is_clamped [of two_monitors "0x00A0B0C0" fresh 100]
  by (simp add: ex_defs initial_nColor_def fluent_nColor_def Let_def)

text \<open>
  C10, as stated, fails on the code: not every input colour keeps its alpha byte. In
  fluent mode the colour 0x00112233 is passed to the composition call as 0x01332211.
\<close>

theorem fluent_transparent_colour_gains_alpha:
  "effects (SetWindowBlur two_monitors fresh 200 ACCENT_ENABLE_FLUENT 0x00112233)
     = [SetWindowCompositionAttribute 200
          \<lparr>nAccentState = ACCENT_ENABLE_FLUENT, nFlags = 2, nColor = 0x01332211,
           nAnimationId = 0\<rparr>]
   \<and> drop_bit 24 (0x01332211 :: 32 word) \<noteq> drop_bit 24 (0x00112233 :: 32 word)"
  by (simp add: ex_defs SetWindowBlur_def initial_nColor_def fluent_nColor_def Let_def)

text \<open>
  C10, amended. With the composition function loaded and a mode other than normal,
  \<^verbatim>\<open>SetWindowBlur\<close> makes one composition call. For every 32-bit input colour, bits 16 to 23
  of the input are bits 0 to 7 of the passed colour, bits 0 to 7 of the input are its bits
  16 to 23, and the green byte is kept. The alpha byte is kept too, except in fluent mode
  for an input with alpha byte 0x00, where the passed colour has alpha byte 0x01.
\<close>

theorem composition_colour_swaps_red_and_blue:
  assumes "SetWindowCompositionAttribute_loaded os" and "appearance \<noteq> ACCENT_NORMAL"
  shows "let applied = (if appearance = ACCENT_ENABLE_FLUENT \<and> drop_bit 24 color = 0
                        then fluent_nColor (initial_nColor color) else initial_nColor color)
         in effects (SetWindowBlur os c w appearance color)
              = effects c @ [SetWindowCompositionAttribute w
                  \<lparr>nAccentState = appearance, nFlags = 2, nColor = applied,
                   nAnimationId = 0\<rparr>]
            \<and> applied AND 0xFF = drop_bit 16 color AND 0xFF
            \<and> drop_bit 16 applied AND 0xFF = color AND 0xFF
            \<and> drop_bit 8 applied AND 0xFF = drop_bit 8 color AND 0xFF
            \<and> drop_bit 24 applied =
                (if appearance = ACCENT_ENABLE_FLUENT \<and> drop_bit 24 color = 0
                 then 0x01 else drop_bit 24 color)"
proof (cases "appearance = ACCENT_ENABLE_FLUENT \<and> drop_bit 24 color = 0")
  case True
  then show ?thesis
    using assms
    by (simp add: Let_def SetWindowBlur_call alpha_clamp red_clamp green_clamp blue_clamp
        red_initial green_initial blue_initial)
next
  case False
  then show ?thesis
    using assms
    by (simp add: Let_def SetWindowBlur_call alpha_initial red_initial green_initial
        blue_initial alpha_clamp red_clamp green_clamp blue_clamp)
qed

theorem composition_colour_swaps_red_and_blue_witness:
  "SetWindowCompositionAttribute_loaded two_monitors \<and> ACCENT_OTHER 3 \<noteq> ACCENT_NORMAL
   \<and> effects (SetWindowBlur two_monitors fresh 100 (ACCENT_OTHER 3) 0xAA112233)
       = [SetWindowCompositionAttribute 100
            \<lparr>nAccentState = ACCENT_OTHER 3, nFlags = 2, nColor = 0xAA332211,
             nAnimationId = 0\<rparr>]"
  using composition_colour_swaps_red_and_blue
    [of two_monitors "ACCENT_OTHER 3" "0xAA112233" fresh 100]
  by (simp add: ex_defs initial_nColor_def fluent_nColor_def Let_def)

section \<open>State carried from pass to pass (claim C9)\<close>

text \<open>
  C9 asks that a pass read nothing but the map, the scan, the flags and the configuration.
  The code reads one thing more: the global \<^verbatim>\<open>hwnd\<close>, which the scan callback of an
  earlier pass has set (line 281) and from which \<^verbatim>\<open>SetTaskbarBlur\<close> builds its local
  \<^verbatim>\<open>window\<close> on entry (line 314). On the unchanged two-monitor desktop, with the same map,
  the same flags and the same configuration, the first pass of the program, where
  \<^verbatim>\<open>hwnd\<close> is still null, ends with the maximised appearance on monitor 2 and leaves
  window 7 in \<^verbatim>\<open>hwnd\<close>; a pass that starts with window 7 in \<^verbatim>\<open>hwnd\<close> ends with the start
  appearance there.
\<close>

theorem decision_reads_last_enumerated_window:
  "taskbars (started\<lparr>hwnd := NullWindow\<rparr>) = taskbars started
   \<and> main_taskbar (started\<lparr>hwnd := NullWindow\<rparr>) = main_taskbar started
   \<and> peek_active (started\<lparr>hwnd := NullWindow\<rparr>) = peek_active started
   \<and> start_opened (started\<lparr>hwnd := NullWindow\<rparr>) = start_opened started
   \<and> counter (started\<lparr>hwnd := NullWindow\<rparr>) = counter started
   \<and> taskbars (fst (SetTaskbarBlur all_enabled two_monitors
                       (started\<lparr>hwnd := NullWindow\<rparr>, fresh)))
       = [(1, 100, REGULAR_APPEARANCE), (2, 200, MAXIMISED_APPEARANCE)]
   \<and> hwnd (fst (SetTaskbarBlur all_enabled two_monitors
                   (started\<lparr>hwnd := NullWindow\<rparr>, fresh))) = 7
   \<and> hwnd started = 7
   \<and> taskbars (fst (SetTaskbarBlur all_enabled two_monitors (started, fresh)))
       = [(1, 100, REGULAR_APPEARANCE), (2, 200, START_APPEARANCE)]"
  by (simp add: ex_defs run_defs)

end
